theory Spec2Isabelle
  imports Complex_Main
begin

section \<open>Values shared by the tools\<close>

text \<open>
  Python strings are modelled as \<open>string\<close>, one \<open>char\<close> per code point below 256.
  Numbers are Python ints or floats; a float carries the exact rational value of the
  double. Arithmetic on floats is exact in the model (the rounding of double arithmetic,
  NaN, infinities and signed zeros are not modelled).
\<close>

datatype num = PyInt int | PyFloat rat

datatype error = ValidationError | UpstreamFetchError

text \<open>Every backend operation a handler performs is recorded, in order.\<close>

datatype call =
    TickerInfo string
  | TickerHistory string "(string \<times> string option) list"
  | HttpGet string

subsection \<open>\<open>str.upper()\<close> and the declared constraints of the symbol parameter\<close>

definition is_upper :: "char \<Rightarrow> bool" where
  "is_upper c = (65 \<le> (of_char c :: nat) \<and> (of_char c :: nat) \<le> 90)"

definition is_lower :: "char \<Rightarrow> bool" where
  "is_lower c = (97 \<le> (of_char c :: nat) \<and> (of_char c :: nat) \<le> 122)"

text \<open>
  \<open>str.upper()\<close> on the ASCII letters. Python also changes some code points outside
  ASCII; such strings never reach a handler, because the symbol pattern admits A to Z only.
\<close>

definition char_upper :: "char \<Rightarrow> char" where
  "char_upper c = (if is_lower c then char_of ((of_char c :: nat) - 32) else c)"

definition upper :: "string \<Rightarrow> string" where
  "upper s = map char_upper s"

text \<open>
  Every tool declares its symbol parameter as
  \<^verbatim>\<open>Field(min_length=1, max_length=10, pattern=r"^[A-Z]{1,10}$")\<close>.
  The framework checks the three constraints before the handler body runs; the pattern is
  anchored at both ends of the text.
\<close>

definition min_length_ok :: "string \<Rightarrow> bool" where
  "min_length_ok s = (1 \<le> length s)"

definition max_length_ok :: "string \<Rightarrow> bool" where
  "max_length_ok s = (length s \<le> 10)"

definition pattern_ok :: "string \<Rightarrow> bool" where
  "pattern_ok s = (list_all is_upper s \<and> 1 \<le> length s \<and> length s \<le> 10)"

definition validate_symbol :: "string \<Rightarrow> error + string" where
  "validate_symbol s =
     (if min_length_ok s \<and> max_length_ok s \<and> pattern_ok s then Inr s
      else Inl ValidationError)"

section \<open>The external collaborators\<close>

text \<open>
  A pandas frame as the market-data library returns it: the column labels and, per row,
  the index value and the cells in column order. An index value is duck-typed by the
  handlers (\<open>hasattr\<close>), so it is modelled by what it offers.
\<close>

type_synonym date = "nat \<times> nat \<times> nat"

record index =
  idx_date :: "date option"
  idx_to_pydatetime :: "date option"
  idx_strftime :: "string option"
  idx_str :: string

record dataframe =
  columns :: "string list"
  rows :: "(index \<times> num list) list"

datatype scalar = SNum num | SStr string

type_synonym yf_params = "(string \<times> string option) list"

text \<open>
  \<open>yf_info t\<close> is \<open>yf.Ticker(t).info\<close>, a dict whose values may be \<open>None\<close>;
  \<open>yf_history t kw\<close> is \<open>yf.Ticker(t).history(**kw)\<close>; \<open>http_get url\<close> is the
  content of the response after \<open>raise_for_status()\<close>; \<open>fromisoformat\<close> and
  \<open>today\<close> are the standard library's date parser and clock.
\<close>

record env =
  yf_info :: "string \<Rightarrow> error + (string \<rightharpoonup> scalar option)"
  yf_history :: "string \<Rightarrow> yf_params \<Rightarrow> error + dataframe"
  http_get :: "string \<Rightarrow> error + string"
  fromisoformat :: "string \<Rightarrow> date option"
  today :: date

text \<open>\<open>d.get(k)\<close>: \<open>None\<close> for an absent key and for a key bound to \<open>None\<close>.\<close>

definition dict_get :: "('k \<rightharpoonup> 'v option) \<Rightarrow> 'k \<Rightarrow> 'v option" where
  "dict_get d k = (case d k of None \<Rightarrow> None | Some v \<Rightarrow> v)"

section \<open>\<open>get_stock_info\<close>\<close>

text \<open>
  The fields \<open>symbol\<close> and \<open>volume\<close> of the source's \<open>StockInfo\<close> are named
  \<open>info_symbol\<close> and \<open>info_volume\<close> here, since other result types have fields of the
  same names.
\<close>

record StockInfo =
  info_symbol :: string
  company_name :: "scalar option"
  current_price :: "scalar option"
  market_cap :: "scalar option"
  pe_ratio :: "scalar option"
  dividend_yield :: "scalar option"
  fifty_two_week_high :: "scalar option"
  fifty_two_week_low :: "scalar option"
  sector :: "scalar option"
  industry :: "scalar option"
  info_volume :: "scalar option"
  avg_volume :: "scalar option"
  beta :: "scalar option"
  book_value :: "scalar option"
  eps :: "scalar option"

text \<open>
  The handler reads the property \<open>stock.info\<close> once per field; the backend of the model
  is a function, so the reads agree and one call is recorded.
\<close>

definition get_stock_info :: "env \<Rightarrow> string \<Rightarrow> call list \<times> (error + StockInfo)" where
  "get_stock_info e symbol =
     (case validate_symbol symbol of
        Inl err \<Rightarrow> ([], Inl err)
      | Inr s \<Rightarrow>
          (case yf_info e (upper s) of
             Inl err \<Rightarrow> ([TickerInfo (upper s)], Inl err)
           | Inr info \<Rightarrow>
               ([TickerInfo (upper s)],
                Inr \<lparr> info_symbol = upper s,
                      company_name = dict_get info ''longName'',
                      current_price = dict_get info ''currentPrice'',
                      market_cap = dict_get info ''marketCap'',
                      pe_ratio = dict_get info ''trailingPE'',
                      dividend_yield = dict_get info ''dividendYield'',
                      fifty_two_week_high = dict_get info ''fiftyTwoWeekHigh'',
                      fifty_two_week_low = dict_get info ''fiftyTwoWeekLow'',
                      sector = dict_get info ''sector'',
                      industry = dict_get info ''industry'',
                      info_volume = dict_get info ''volume'',
                      avg_volume = dict_get info ''averageVolume'',
                      beta = dict_get info ''beta'',
                      book_value = dict_get info ''bookValue'',
                      eps = dict_get info ''trailingEps'' \<rparr>)))"

section \<open>\<open>get_historical_prices\<close>\<close>

text \<open>
  The parameters \<open>start\<close> and \<open>end\<close> of the source are \<open>start_date\<close> and
  \<open>end_date\<close> here. A parameter with a declared default is an option: \<open>None\<close> is a
  call that does not supply it.
\<close>

definition supplied_or :: "'a \<Rightarrow> 'a option \<Rightarrow> 'a" where
  "supplied_or dflt arg = (case arg of None \<Rightarrow> dflt | Some v \<Rightarrow> v)"

text \<open>How an f-string renders an \<open>Optional[str]\<close>.\<close>

definition fmt_opt :: "string option \<Rightarrow> string" where
  "fmt_opt v = (case v of None \<Rightarrow> ''None'' | Some s \<Rightarrow> s)"

text \<open>
  The first block of \<open>get_historical_prices\<close>, which \<open>render_stock_chart\<close> repeats
  line by line: the keyword arguments of \<open>history\<close> and \<open>actual_period\<close>.
\<close>

definition yf_request ::
  "string \<Rightarrow> string \<Rightarrow> string option \<Rightarrow> string option \<Rightarrow> yf_params \<times> string" where
  "yf_request period interval start_date end_date =
     (if start_date \<noteq> None \<or> end_date \<noteq> None then
        ([(''start'', start_date), (''end'', end_date), (''interval'', Some interval)],
         ''start='' @ fmt_opt start_date @ '', end='' @ fmt_opt end_date)
      else
        ([(''period'', Some period), (''interval'', Some interval)], period))"

text \<open>\<open>hist.empty\<close>: an axis of length zero.\<close>

definition df_empty :: "dataframe \<Rightarrow> bool" where
  "df_empty hist = (rows hist = [] \<or> columns hist = [])"

text \<open>\<open>row.get(k)\<close> on a row of a frame with the column labels \<open>cols\<close>.\<close>

definition row_get :: "string list \<Rightarrow> num list \<Rightarrow> string \<Rightarrow> num option" where
  "row_get cols cells k = map_of (zip cols cells) k"

definition date_key :: "env \<Rightarrow> index \<Rightarrow> date" where
  "date_key e idx =
     (case idx_date idx of
        Some d \<Rightarrow> d
      | None \<Rightarrow>
          (case idx_to_pydatetime idx of
             Some d \<Rightarrow> d
           | None \<Rightarrow>
               (case fromisoformat e (take 10 (idx_str idx)) of
                  Some d \<Rightarrow> d
                | None \<Rightarrow> today e)))"

text \<open>
  The fields \<open>open\<close>, \<open>high\<close>, \<open>low\<close>, \<open>close\<close> and \<open>volume\<close> of the source's
  \<open>HistoricalBar\<close> carry the prefix \<open>bar_\<close>; \<open>symbol\<close> and \<open>period\<close> of
  \<open>HistoricalPrices\<close> carry the prefix \<open>prices_\<close>.
\<close>

record HistoricalBar =
  bar_open :: "num option"
  bar_high :: "num option"
  bar_low :: "num option"
  bar_close :: "num option"
  adj_close :: "num option"
  bar_volume :: "num option"

record HistoricalPrices =
  prices_symbol :: string
  resolution :: string
  prices_period :: string
  bars :: "date \<rightharpoonup> HistoricalBar"

definition make_bar :: "string list \<Rightarrow> num list \<Rightarrow> HistoricalBar" where
  "make_bar cols cells =
     \<lparr> bar_open = row_get cols cells ''Open'',
       bar_high = row_get cols cells ''High'',
       bar_low = row_get cols cells ''Low'',
       bar_close = row_get cols cells ''Close'',
       adj_close = (if ''Adj Close'' \<in> set cols then row_get cols cells ''Adj Close'' else None),
       bar_volume = row_get cols cells ''Volume'' \<rparr>"

text \<open>The loop over \<open>hist.iterrows()\<close>; a later row of the same date replaces the bar.\<close>

fun fill_bars ::
  "env \<Rightarrow> string list \<Rightarrow> (index \<times> num list) list \<Rightarrow> (date \<rightharpoonup> HistoricalBar) \<Rightarrow>
   (date \<rightharpoonup> HistoricalBar)" where
  "fill_bars e cols [] acc = acc"
| "fill_bars e cols ((idx, cells) # rest) acc =
     fill_bars e cols rest (acc(date_key e idx \<mapsto> make_bar cols cells))"

definition get_historical_prices ::
  "env \<Rightarrow> string \<Rightarrow> string option \<Rightarrow> string option \<Rightarrow> string option \<Rightarrow> string option \<Rightarrow>
   call list \<times> (error + HistoricalPrices)" where
  "get_historical_prices e symbol period_arg interval_arg start_date end_date =
     (case validate_symbol symbol of
        Inl err \<Rightarrow> ([], Inl err)
      | Inr s \<Rightarrow>
          (let period = supplied_or ''1y'' period_arg;
               interval = supplied_or ''1d'' interval_arg;
               (yf_params, actual_period) = yf_request period interval start_date end_date
           in case yf_history e (upper s) yf_params of
                Inl err \<Rightarrow> ([TickerHistory (upper s) yf_params], Inl err)
              | Inr hist \<Rightarrow>
                  ([TickerHistory (upper s) yf_params],
                   Inr \<lparr> prices_symbol = upper s,
                         resolution = period,
                         prices_period = actual_period,
                         bars = (if \<not> df_empty hist
                                 then fill_bars e (columns hist) (rows hist) Map.empty
                                 else Map.empty) \<rparr>)))"

section \<open>\<open>render_stock_chart\<close>\<close>

subsection \<open>Python numbers and the format specification \<open>.Nf\<close>\<close>

fun num_val :: "num \<Rightarrow> rat" where
  "num_val (PyInt i) = of_int i"
| "num_val (PyFloat r) = r"

text \<open>\<open>float(x)\<close> and \<open>int(x)\<close>; the latter truncates towards zero.\<close>

fun py_float :: "num \<Rightarrow> num" where
  "py_float x = PyFloat (num_val x)"

fun py_int :: "num \<Rightarrow> num" where
  "py_int (PyInt i) = PyInt i"
| "py_int (PyFloat r) = PyInt (if 0 \<le> r then \<lfloor>r\<rfloor> else \<lceil>r\<rceil>)"

fun py_sub :: "num \<Rightarrow> num \<Rightarrow> num" where
  "py_sub (PyInt i) (PyInt j) = PyInt (i - j)"
| "py_sub a b = PyFloat (num_val a - num_val b)"

fun py_mul :: "num \<Rightarrow> num \<Rightarrow> num" where
  "py_mul (PyInt i) (PyInt j) = PyInt (i * j)"
| "py_mul a b = PyFloat (num_val a * num_val b)"

text \<open>True division; every use is guarded by a test that the divisor is not zero.\<close>

fun py_truediv :: "num \<Rightarrow> num \<Rightarrow> num" where
  "py_truediv a b = PyFloat (num_val a / num_val b)"

fun decimal :: "nat \<Rightarrow> string" where
  "decimal n =
     (if n < 10 then [char_of (48 + n)]
      else decimal (n div 10) @ [char_of (48 + n mod 10)])"

declare decimal.simps [simp del]

definition round_half_even :: "rat \<Rightarrow> int" where
  "round_half_even y =
     (let f = \<lfloor>y\<rfloor>; r = y - of_int f
      in if r < 1 / 2 then f
         else if 1 / 2 < r then f + 1
         else if even f then f else f + 1)"

text \<open>
  \<open>format(x, ".Nf")\<close>, and \<open>"+.Nf"\<close> when \<open>signed\<close> holds: the exact value rounded to
  \<open>d\<close> decimals, ties to even, with the sign of \<open>x\<close> in front.
\<close>

definition fmt_fixed :: "bool \<Rightarrow> nat \<Rightarrow> num \<Rightarrow> string" where
  "fmt_fixed signed d v =
     (let x = num_val v;
          n = nat (round_half_even (\<bar>x\<bar> * 10 ^ d));
          fs = decimal (n mod 10 ^ d)
      in (if x < 0 then ''-'' else if signed then ''+'' else [])
         @ decimal (n div 10 ^ d)
         @ (if d = 0 then [] else ''.'' @ replicate (d - length fs) CHR ''0'' @ fs))"

subsection \<open>The data of the chart\<close>

text \<open>A data point is a dict with the keys date, open, high, low, close and volume.\<close>

record chart_point =
  pt_date :: string
  pt_open :: num
  pt_high :: num
  pt_low :: num
  pt_close :: num
  pt_volume :: num

text \<open>\<open>row.get(k, d)\<close>.\<close>

definition row_get_or :: "string list \<Rightarrow> num list \<Rightarrow> string \<Rightarrow> num \<Rightarrow> num" where
  "row_get_or cols cells k d = (case row_get cols cells k of None \<Rightarrow> d | Some v \<Rightarrow> v)"

definition date_str :: "index \<Rightarrow> string" where
  "date_str idx = (case idx_strftime idx of Some s \<Rightarrow> s | None \<Rightarrow> take 10 (idx_str idx))"

definition make_point :: "string list \<Rightarrow> index \<Rightarrow> num list \<Rightarrow> chart_point" where
  "make_point cols idx cells =
     \<lparr> pt_date = date_str idx,
       pt_open = py_float (row_get_or cols cells ''Open'' (PyInt 0)),
       pt_high = py_float (row_get_or cols cells ''High'' (PyInt 0)),
       pt_low = py_float (row_get_or cols cells ''Low'' (PyInt 0)),
       pt_close = py_float (row_get_or cols cells ''Close'' (PyInt 0)),
       pt_volume = py_int (row_get_or cols cells ''Volume'' (PyInt 0)) \<rparr>"

definition dummy_point :: chart_point where
  "dummy_point =
     \<lparr> pt_date = ''2024-01-01'', pt_open = PyInt 100, pt_high = PyInt 100,
       pt_low = PyInt 100, pt_close = PyInt 100, pt_volume = PyInt 0 \<rparr>"

definition collect_chart_data :: "dataframe \<Rightarrow> chart_point list" where
  "collect_chart_data hist =
     (let chart_data =
            (if \<not> df_empty hist
             then map (\<lambda>(idx, cells). make_point (columns hist) idx cells) (rows hist)
             else [])
      in if chart_data = [] then [dummy_point] else chart_data)"

subsection \<open>The document\<close>

definition char_lower :: "char \<Rightarrow> char" where
  "char_lower c = (if is_upper c then char_of ((of_char c :: nat) + 32) else c)"

definition lower :: "string \<Rightarrow> string" where
  "lower s = map char_lower s"

datatype chart_script = LineChart | CandlestickChart | AreaChart

definition select_chart_script :: "string \<Rightarrow> chart_script" where
  "select_chart_script chart_type =
     (if lower chart_type = ''line'' then LineChart
      else if lower chart_type = ''candlestick'' then CandlestickChart
      else AreaChart)"

text \<open>
  The HTML is a fixed template with replacement fields. The document is modelled by the
  text that fills them: \<open>doc_change\<close> is the content of the Change box (the change
  and its percentage), \<open>doc_raw_data\<close> is the list whose \<open>repr\<close> Python writes
  after \<open>const rawData =\<close>, and \<open>doc_chart_script\<close> names the script that is
  pasted in.
\<close>

record chart_document =
  doc_title :: string
  doc_period :: string
  doc_current_price :: string
  doc_change_class :: string
  doc_change :: string
  doc_data_points :: string
  doc_raw_data :: "chart_point list"
  doc_chart_script :: chart_script

definition build_document ::
  "string \<Rightarrow> string \<Rightarrow> string \<Rightarrow> chart_point list \<Rightarrow> chart_document" where
  "build_document symbol chart_type actual_period chart_data =
     (let latest_price = pt_close (last chart_data);
          first_price = pt_close (hd chart_data);
          price_change = py_sub latest_price first_price;
          price_change_pct =
            (if num_val first_price \<noteq> 0
             then py_mul (py_truediv (py_sub latest_price first_price) first_price) (PyInt 100)
             else PyInt 0)
      in \<lparr> doc_title = upper symbol @ '' Chart'',
            doc_period = actual_period,
            doc_current_price = ''$'' @ fmt_fixed False 2 latest_price,
            doc_change_class = (if 0 \<le> num_val price_change then ''positive'' else ''negative''),
            doc_change =
              ''$'' @ fmt_fixed True 2 price_change
              @ '' ('' @ fmt_fixed True 1 price_change_pct @ ''%)'',
            doc_data_points = decimal (length chart_data),
            doc_raw_data = chart_data,
            doc_chart_script = select_chart_script chart_type \<rparr>)"

text \<open>
  An embedded resource. \<open>blob\<close> holds the payload that the source passes to
  \<open>base64.b64encode\<close>; the encoding itself is the standard library's.
\<close>

record 'a EmbeddedResource =
  uri :: string
  mimeType :: string
  blob :: 'a

definition render_stock_chart ::
  "env \<Rightarrow> string \<Rightarrow> string option \<Rightarrow> string option \<Rightarrow> string option \<Rightarrow> string option \<Rightarrow>
   string option \<Rightarrow> call list \<times> (error + chart_document EmbeddedResource)" where
  "render_stock_chart e symbol chart_type_arg period_arg interval_arg start_date end_date =
     (case validate_symbol symbol of
        Inl err \<Rightarrow> ([], Inl err)
      | Inr s \<Rightarrow>
          (let chart_type = supplied_or ''candlestick'' chart_type_arg;
               period = supplied_or ''1mo'' period_arg;
               interval = supplied_or ''1d'' interval_arg;
               (yf_params, actual_period) = yf_request period interval start_date end_date
           in case yf_history e (upper s) yf_params of
                Inl err \<Rightarrow> ([TickerHistory (upper s) yf_params], Inl err)
              | Inr hist \<Rightarrow>
                  ([TickerHistory (upper s) yf_params],
                   Inr \<lparr> uri = ''ui://data/chart/'' @ s,
                         mimeType = ''text/html'',
                         blob = build_document s chart_type actual_period
                                  (collect_chart_data hist) \<rparr>)))"

section \<open>\<open>get_factsheet\<close>\<close>

definition pdf_url :: string where
  "pdf_url =
     ''https://www.adobe.com/support/products/enterprise/knowledgecenter/media/c4611_sample_explain.pdf''"

definition get_factsheet :: "env \<Rightarrow> string \<Rightarrow> call list \<times> (error + string EmbeddedResource)" where
  "get_factsheet e symbol =
     (case validate_symbol symbol of
        Inl err \<Rightarrow> ([], Inl err)
      | Inr s \<Rightarrow>
          (case http_get e pdf_url of
             Inl err \<Rightarrow> ([HttpGet pdf_url], Inl err)
           | Inr pdf_content \<Rightarrow>
               ([HttpGet pdf_url],
                Inr \<lparr> uri = ''ui://data/factsheets/'' @ s @ ''.pdf'',
                      mimeType = ''application/pdf'',
                      blob = pdf_content \<rparr>)))"

section \<open>The discovery endpoint of the bridge\<close>

text \<open>
  What the handler finds at the path of \<open>instructions.md\<close>:
  \<^item> \<open>StatFails\<close>: \<open>instructions_file.exists()\<close> itself raises (the path cannot be
    examined, for instance permission is denied on the way to it);
  \<^item> \<open>Absent\<close>: \<open>exists()\<close> is false;
  \<^item> \<open>Unreadable\<close>: \<open>exists()\<close> is true and opening, decoding or reading the file
    raises;
  \<^item> \<open>Readable cs\<close>: \<open>exists()\<close> is true and the file decodes to the characters
    \<open>cs\<close>, as stored, before the translation of line endings.
\<close>

datatype file_state = StatFails | Absent | Unreadable | Readable string

text \<open>The handler catches no error of \<open>exists()\<close>: it leaves the handler.\<close>

datatype bridge_error = UnhandledOSError

text \<open>
  The file is opened in text mode with the default \<open>newline=None\<close>, so \<open>read()\<close>
  returns the characters with every CR LF and every lone CR turned into LF.
\<close>

fun universal_newlines :: "string \<Rightarrow> string" where
  "universal_newlines [] = []"
| "universal_newlines [c] = [if c = CHR 0x0D then CHR 0x0A else c]"
| "universal_newlines (c # d # cs) =
     (if c = CHR 0x0D \<and> d = CHR 0x0A then CHR 0x0A # universal_newlines cs
      else if c = CHR 0x0D then CHR 0x0A # universal_newlines (d # cs)
      else c # universal_newlines (d # cs))"

text \<open>\<open>str.isspace\<close> on the code points below 256, and \<open>str.strip()\<close>.\<close>

definition isspace :: "char \<Rightarrow> bool" where
  "isspace c =
     (let n = (of_char c :: nat)
      in (9 \<le> n \<and> n \<le> 13) \<or> (28 \<le> n \<and> n \<le> 32) \<or> n = 133 \<or> n = 160)"

definition strip :: "string \<Rightarrow> string" where
  "strip s = rev (dropWhile isspace (rev (dropWhile isspace s)))"

text \<open>
  The handler: the error that leaves it, or the JSON object of the response as its
  members in order. The test \<open>exists()\<close> comes first and stands outside the \<open>try\<close>.
\<close>

definition wingman_endpoint :: "file_state \<Rightarrow> bridge_error + (string \<times> string) list" where
  "wingman_endpoint instructions_file =
     (let data = [(''name'', ''wingman'')]
      in case instructions_file of
           StatFails \<Rightarrow> Inl UnhandledOSError
         | Absent \<Rightarrow> Inr data
         | Unreadable \<Rightarrow> Inr data
         | Readable cs \<Rightarrow>
             (let instructions = strip (universal_newlines cs)
              in if instructions \<noteq> [] then Inr (data @ [(''instructions'', instructions)])
                 else Inr data))"

section \<open>Which backend key feeds which field\<close>

text \<open>
  The keys that \<open>get_stock_info\<close> reads from \<open>stock.info\<close>, the column labels that
  \<open>get_historical_prices\<close> reads from a row, and the price columns that
  \<open>render_stock_chart\<close> reads from a row, each with the field of the result it fills.
\<close>

definition info_fields :: "(string \<times> (StockInfo \<Rightarrow> scalar option)) list" where
  "info_fields =
     [(''longName'', company_name), (''currentPrice'', current_price),
      (''marketCap'', market_cap), (''trailingPE'', pe_ratio),
      (''dividendYield'', dividend_yield), (''fiftyTwoWeekHigh'', fifty_two_week_high),
      (''fiftyTwoWeekLow'', fifty_two_week_low), (''sector'', sector),
      (''industry'', industry), (''volume'', info_volume), (''averageVolume'', avg_volume),
      (''beta'', beta), (''bookValue'', book_value), (''trailingEps'', eps)]"

definition bar_fields :: "(string \<times> (HistoricalBar \<Rightarrow> num option)) list" where
  "bar_fields =
     [(''Open'', bar_open), (''High'', bar_high), (''Low'', bar_low), (''Close'', bar_close),
      (''Adj Close'', adj_close), (''Volume'', bar_volume)]"

definition point_price_fields :: "(string \<times> (chart_point \<Rightarrow> num)) list" where
  "point_price_fields =
     [(''Open'', pt_open), (''High'', pt_high), (''Low'', pt_low), (''Close'', pt_close)]"

section \<open>Sample backends\<close>

text \<open>
  Concrete collaborators at which the theorems below are instantiated: a frame with every
  column, a frame without the Open, Adj Close and Volume columns, and a frame without rows.
\<close>

definition stamp :: "string \<Rightarrow> date \<Rightarrow> index" where
  "stamp s d =
     \<lparr> idx_date = Some d, idx_to_pydatetime = Some d, idx_strftime = Some s,
       idx_str = s @ '' 00:00:00-04:00'' \<rparr>"

definition full_frame :: dataframe where
  "full_frame =
     \<lparr> columns = [''Open'', ''High'', ''Low'', ''Close'', ''Adj Close'', ''Volume''],
       rows = [(stamp ''2024-08-08'' (2024, 8, 8),
                  [PyFloat 180, PyFloat 182, PyFloat 179, PyFloat 181, PyFloat (1809 / 10),
                   PyInt 500]),
               (stamp ''2024-08-09'' (2024, 8, 9),
                  [PyFloat (18012 / 100), PyFloat (18245 / 100), PyFloat (1789 / 10),
                   PyFloat (18125 / 100), PyFloat (1811 / 10), PyInt 51234567])] \<rparr>"

definition partial_frame :: dataframe where
  "partial_frame =
     \<lparr> columns = [''High'', ''Low'', ''Close''],
       rows = [(stamp ''2024-08-09'' (2024, 8, 9), [PyFloat 420, PyFloat 410, PyFloat 415])] \<rparr>"

definition no_rows_frame :: dataframe where
  "no_rows_frame =
     \<lparr> columns = [''Open'', ''High'', ''Low'', ''Close'', ''Volume''], rows = [] \<rparr>"

definition sample_info :: "string \<rightharpoonup> scalar option" where
  "sample_info =
     [''longName'' \<mapsto> Some (SStr ''Apple Inc.''),
      ''currentPrice'' \<mapsto> Some (SNum (PyFloat (15025 / 100))),
      ''trailingPE'' \<mapsto> None]"

definition sample_env :: env where
  "sample_env =
     \<lparr> yf_info = (\<lambda>t. if t = ''AAPL'' then Inr sample_info else Inr Map.empty),
       yf_history = (\<lambda>t kw. if t = ''AAPL'' then Inr full_frame
                             else if t = ''MSFT'' then Inr partial_frame
                             else Inr no_rows_frame),
       http_get = (\<lambda>url. if url = pdf_url then Inr ''%PDF-1.4'' else Inl UpstreamFetchError),
       fromisoformat = (\<lambda>s. None),
       today = (2026, 1, 1) \<rparr>"

section \<open>Validation of the symbol\<close>

lemma validate_symbol_ok: "pattern_ok s \<Longrightarrow> validate_symbol s = Inr s"
  by (simp add: validate_symbol_def pattern_ok_def min_length_ok_def max_length_ok_def)

lemma validate_symbol_bad: "\<not> pattern_ok s \<Longrightarrow> validate_symbol s = Inl ValidationError"
  by (simp add: validate_symbol_def)

lemma char_upper_id: "is_upper c \<Longrightarrow> char_upper c = c"
  by (simp add: char_upper_def is_upper_def is_lower_def)

lemma upper_id: "list_all is_upper s \<Longrightarrow> upper s = s"
  by (induction s) (simp_all add: upper_def char_upper_id)

lemma upper_valid: "pattern_ok s \<Longrightarrow> upper s = s"
  by (simp add: pattern_ok_def upper_id)

lemma upper_letters: "map char_of [65..<91::nat] = ''ABCDEFGHIJKLMNOPQRSTUVWXYZ''"
  by code_simp

lemma is_upper_iff: "is_upper c \<longleftrightarrow> c \<in> set ''ABCDEFGHIJKLMNOPQRSTUVWXYZ''"
proof
  assume "is_upper c"
  then have "(of_char c :: nat) \<in> {65..<91}" by (simp add: is_upper_def)
  then have "(of_char c :: nat) \<in> set [65..<91]" by (simp only: set_upt)
  then have "char_of (of_char c :: nat) \<in> set (map char_of [65..<91::nat])"
    by (simp only: set_map) (rule imageI)
  then show "c \<in> set ''ABCDEFGHIJKLMNOPQRSTUVWXYZ''"
    by (simp only: upper_letters char_of_char)
next
  assume "c \<in> set ''ABCDEFGHIJKLMNOPQRSTUVWXYZ''"
  then show "is_upper c" by (auto simp: is_upper_def)
qed

lemma lower_not_upper: "is_lower c \<Longrightarrow> \<not> is_upper c"
  by (simp add: is_lower_def is_upper_def)

lemma pattern_ok_letters:
  "pattern_ok s \<longleftrightarrow>
     1 \<le> length s \<and> length s \<le> 10 \<and> set s \<subseteq> set ''ABCDEFGHIJKLMNOPQRSTUVWXYZ''"
proof -
  have "list_all is_upper s \<longleftrightarrow> set s \<subseteq> set ''ABCDEFGHIJKLMNOPQRSTUVWXYZ''"
    unfolding list_all_iff using is_upper_iff by blast
  then show ?thesis by (auto simp: pattern_ok_def)
qed

subsection \<open>The handlers on a rejected and on an accepted symbol\<close>

lemma get_stock_info_rejects:
  "\<not> pattern_ok s \<Longrightarrow> get_stock_info e s = ([], Inl ValidationError)"
  by (simp add: get_stock_info_def validate_symbol_bad)

lemma get_historical_prices_rejects:
  "\<not> pattern_ok s \<Longrightarrow> get_historical_prices e s p i sd ed = ([], Inl ValidationError)"
  by (simp add: get_historical_prices_def validate_symbol_bad)

lemma render_stock_chart_rejects:
  "\<not> pattern_ok s \<Longrightarrow> render_stock_chart e s c p i sd ed = ([], Inl ValidationError)"
  by (simp add: render_stock_chart_def validate_symbol_bad)

lemma get_factsheet_rejects:
  "\<not> pattern_ok s \<Longrightarrow> get_factsheet e s = ([], Inl ValidationError)"
  by (simp add: get_factsheet_def validate_symbol_bad)

lemma get_stock_info_calls:
  "pattern_ok s \<Longrightarrow> fst (get_stock_info e s) = [TickerInfo s]"
  by (simp add: get_stock_info_def validate_symbol_ok upper_valid split: sum.splits)

lemma get_historical_prices_accepts:
  "pattern_ok s \<Longrightarrow>
   get_historical_prices e s p i sd ed =
     (let period = supplied_or ''1y'' p;
          rq = yf_request period (supplied_or ''1d'' i) sd ed
      in case yf_history e s (fst rq) of
           Inl err \<Rightarrow> ([TickerHistory s (fst rq)], Inl err)
         | Inr hist \<Rightarrow>
             ([TickerHistory s (fst rq)],
              Inr \<lparr> prices_symbol = s, resolution = period, prices_period = snd rq,
                    bars = (if df_empty hist then Map.empty
                            else fill_bars e (columns hist) (rows hist) Map.empty) \<rparr>))"
  by (simp add: get_historical_prices_def validate_symbol_ok upper_valid Let_def
      case_prod_beta split: sum.splits)

lemma render_stock_chart_accepts:
  "pattern_ok s \<Longrightarrow>
   render_stock_chart e s c p i sd ed =
     (let rq = yf_request (supplied_or ''1mo'' p) (supplied_or ''1d'' i) sd ed
      in case yf_history e s (fst rq) of
           Inl err \<Rightarrow> ([TickerHistory s (fst rq)], Inl err)
         | Inr hist \<Rightarrow>
             ([TickerHistory s (fst rq)],
              Inr \<lparr> uri = ''ui://data/chart/'' @ s, mimeType = ''text/html'',
                    blob = build_document s (supplied_or ''candlestick'' c) (snd rq)
                             (collect_chart_data hist) \<rparr>))"
  by (simp add: render_stock_chart_def validate_symbol_ok upper_valid Let_def
      case_prod_beta split: sum.splits)

lemma get_factsheet_accepts:
  "pattern_ok s \<Longrightarrow>
   get_factsheet e s =
     (case http_get e pdf_url of
        Inl err \<Rightarrow> ([HttpGet pdf_url], Inl err)
      | Inr pdf_content \<Rightarrow>
          ([HttpGet pdf_url],
           Inr \<lparr> uri = ''ui://data/factsheets/'' @ s @ ''.pdf'',
                 mimeType = ''application/pdf'', blob = pdf_content \<rparr>))"
  by (simp add: get_factsheet_def validate_symbol_ok)

lemma fst_case_sum: "fst (case x of Inl a \<Rightarrow> (c, f a) | Inr b \<Rightarrow> (c, g b)) = c"
  by (cases x) simp_all

lemma get_historical_prices_calls:
  "pattern_ok s \<Longrightarrow>
   fst (get_historical_prices e s p i sd ed) =
     [TickerHistory s (fst (yf_request (supplied_or ''1y'' p) (supplied_or ''1d'' i) sd ed))]"
  by (simp add: get_historical_prices_accepts Let_def fst_case_sum)

lemma render_stock_chart_calls:
  "pattern_ok s \<Longrightarrow>
   fst (render_stock_chart e s c p i sd ed) =
     [TickerHistory s (fst (yf_request (supplied_or ''1mo'' p) (supplied_or ''1d'' i) sd ed))]"
  by (simp add: render_stock_chart_accepts Let_def fst_case_sum)

lemma get_factsheet_calls: "pattern_ok s \<Longrightarrow> fst (get_factsheet e s) = [HttpGet pdf_url]"
  by (simp add: get_factsheet_accepts fst_case_sum)

lemma ok_AAPL: "pattern_ok ''AAPL''"
  by (simp add: pattern_ok_def is_upper_def)

lemma ok_MSFT: "pattern_ok ''MSFT''"
  by (simp add: pattern_ok_def is_upper_def)

lemma ok_TSLA: "pattern_ok ''TSLA''"
  by (simp add: pattern_ok_def is_upper_def)

lemma not_ok_aapl: "\<not> pattern_ok ''aapl''"
  by (simp add: pattern_ok_def is_upper_def)

text \<open>
  C8. A symbol that does not consist of 1 to 10 letters A to Z makes each of the four
  tools fail with a validation error, with no backend operation performed; a symbol of
  that form passes validation unchanged, and each tool then performs its backend operation.
\<close>

theorem symbol_validation:
  "(pattern_ok symbol \<longleftrightarrow>
      1 \<le> length symbol \<and> length symbol \<le> 10 \<and>
      set symbol \<subseteq> set ''ABCDEFGHIJKLMNOPQRSTUVWXYZ'') \<and>
   (\<not> pattern_ok symbol \<longrightarrow>
      validate_symbol symbol = Inl ValidationError \<and>
      get_stock_info e symbol = ([], Inl ValidationError) \<and>
      get_historical_prices e symbol p i sd ed = ([], Inl ValidationError) \<and>
      render_stock_chart e symbol c p i sd ed = ([], Inl ValidationError) \<and>
      get_factsheet e symbol = ([], Inl ValidationError)) \<and>
   (pattern_ok symbol \<longrightarrow>
      validate_symbol symbol = Inr symbol \<and>
      fst (get_stock_info e symbol) = [TickerInfo symbol] \<and>
      fst (get_historical_prices e symbol p i sd ed) =
        [TickerHistory symbol
           (fst (yf_request (supplied_or ''1y'' p) (supplied_or ''1d'' i) sd ed))] \<and>
      fst (render_stock_chart e symbol c p i sd ed) =
        [TickerHistory symbol
           (fst (yf_request (supplied_or ''1mo'' p) (supplied_or ''1d'' i) sd ed))] \<and>
      fst (get_factsheet e symbol) = [HttpGet pdf_url])"
proof (intro conjI impI)
  show "pattern_ok symbol \<longleftrightarrow>
      1 \<le> length symbol \<and> length symbol \<le> 10 \<and>
      set symbol \<subseteq> set ''ABCDEFGHIJKLMNOPQRSTUVWXYZ''"
    by (rule pattern_ok_letters)
qed (simp_all add: validate_symbol_ok validate_symbol_bad get_stock_info_rejects
       get_historical_prices_rejects render_stock_chart_rejects get_factsheet_rejects
       get_stock_info_calls get_historical_prices_calls render_stock_chart_calls
       get_factsheet_calls)

theorem symbol_validation_witness:
  "\<not> pattern_ok ''aapl'' \<and>
   get_stock_info sample_env ''aapl'' = ([], Inl ValidationError) \<and>
   get_historical_prices sample_env ''aapl'' None None None None = ([], Inl ValidationError) \<and>
   render_stock_chart sample_env ''aapl'' None None None None None = ([], Inl ValidationError) \<and>
   get_factsheet sample_env ''aapl'' = ([], Inl ValidationError) \<and>
   pattern_ok ''AAPL'' \<and>
   validate_symbol ''AAPL'' = Inr ''AAPL'' \<and>
   fst (get_stock_info sample_env ''AAPL'') = [TickerInfo ''AAPL''] \<and>
   fst (get_factsheet sample_env ''AAPL'') = [HttpGet pdf_url]"
  using symbol_validation [of "''aapl''" sample_env None None None None None]
    symbol_validation [of "''AAPL''" sample_env None None None None None]
    ok_AAPL not_ok_aapl
  by simp

section \<open>Case normalisation\<close>

lemma lower_a: "is_lower CHR ''a''"
  by (simp add: is_lower_def)

lemma upper_aapl: "upper ''aapl'' = ''AAPL''"
  by code_simp

text \<open>
  C1. The input \<open>aapl\<close> contains a lowercase letter and its uppercase form is
  \<open>AAPL\<close>. The claim, and the handlers' own \<open>symbol.upper()\<close>, would have it
  dispatched as \<open>AAPL\<close>; the code rejects it at validation, in \<open>get_stock_info\<close> and
  in \<open>get_historical_prices\<close>, and dispatches nothing, while the input \<open>AAPL\<close> is
  dispatched.
\<close>

theorem lowercase_symbol_not_dispatched:
  "is_lower CHR ''a'' \<and> upper ''aapl'' = ''AAPL'' \<and>
   get_stock_info sample_env ''aapl'' = ([], Inl ValidationError) \<and>
   get_historical_prices sample_env ''aapl'' None None None None = ([], Inl ValidationError) \<and>
   fst (get_stock_info sample_env ''AAPL'') = [TickerInfo ''AAPL'']"
  using lower_a upper_aapl not_ok_aapl ok_AAPL
  by (simp add: get_stock_info_rejects get_historical_prices_rejects get_stock_info_calls)

section \<open>The request sent to the history backend\<close>

lemma yf_request_range:
  "sd \<noteq> None \<or> ed \<noteq> None \<Longrightarrow>
   yf_request period interval sd ed =
     ([(''start'', sd), (''end'', ed), (''interval'', Some interval)],
      ''start='' @ fmt_opt sd @ '', end='' @ fmt_opt ed)"
  by (simp add: yf_request_def)

lemma yf_request_period:
  "yf_request period interval None None =
     ([(''period'', Some period), (''interval'', Some interval)], period)"
  by (simp add: yf_request_def)



section \<open>The result of \<open>get_historical_prices\<close>\<close>

lemma accepted_if_result:
  assumes "get_historical_prices e symbol p i sd ed = (calls, Inr r)"
  shows "pattern_ok symbol"
proof (rule ccontr)
  assume "\<not> pattern_ok symbol"
  then have "get_historical_prices e symbol p i sd ed = ([], Inl ValidationError)"
    by (rule get_historical_prices_rejects)
  with assms show False by simp
qed

lemma get_historical_prices_result:
  assumes res: "get_historical_prices e symbol p i sd ed = (calls, Inr r)"
    and rq: "rq = yf_request (supplied_or ''1y'' p) (supplied_or ''1d'' i) sd ed"
  shows "\<exists>hist. yf_history e (upper symbol) (fst rq) = Inr hist \<and>
           calls = [TickerHistory (upper symbol) (fst rq)] \<and>
           r = \<lparr> prices_symbol = upper symbol, resolution = supplied_or ''1y'' p,
                 prices_period = snd rq,
                 bars = (if df_empty hist then Map.empty
                         else fill_bars e (columns hist) (rows hist) Map.empty) \<rparr>"
proof -
  have ok: "pattern_ok symbol" using res by (rule accepted_if_result)
  show ?thesis
  proof (cases "yf_history e symbol (fst rq)")
    case (Inl err)
    with res ok rq show ?thesis
      by (simp add: get_historical_prices_accepts Let_def)
  next
    case (Inr hist)
    with res ok rq show ?thesis
      by (auto simp: get_historical_prices_accepts Let_def upper_valid)
  qed
qed

text \<open>
  C5. When the backend answers a \<open>get_historical_prices\<close> call with a frame of zero
  rows, the call returns a \<open>HistoricalPrices\<close> value (not an error) whose \<open>bars\<close> is
  the empty mapping: no date has a bar.
\<close>

theorem no_rows_gives_empty_bars:
  assumes "pattern_ok symbol"
    and "yf_history e (upper symbol)
           (fst (yf_request (supplied_or ''1y'' p) (supplied_or ''1d'' i) sd ed)) = Inr hist"
    and "rows hist = []"
  shows "snd (get_historical_prices e symbol p i sd ed) =
           Inr \<lparr> prices_symbol = upper symbol, resolution = supplied_or ''1y'' p,
                 prices_period =
                   snd (yf_request (supplied_or ''1y'' p) (supplied_or ''1d'' i) sd ed),
                 bars = Map.empty \<rparr>"
  using assms
  by (simp add: get_historical_prices_accepts Let_def upper_valid df_empty_def)

theorem no_rows_gives_empty_bars_witness:
  "pattern_ok ''TSLA'' \<and>
   yf_history sample_env (upper ''TSLA'')
     (fst (yf_request (supplied_or ''1y'' None) (supplied_or ''1d'' None) None None)) =
     Inr no_rows_frame \<and>
   rows no_rows_frame = [] \<and>
   snd (get_historical_prices sample_env ''TSLA'' None None None None) =
     Inr \<lparr> prices_symbol = ''TSLA'', resolution = ''1y'', prices_period = ''1y'',
           bars = Map.empty \<rparr>"
proof -
  have h: "yf_history sample_env (upper ''TSLA'')
     (fst (yf_request (supplied_or ''1y'' None) (supplied_or ''1d'' None) None None)) =
     Inr no_rows_frame"
    by (simp add: sample_env_def upper_valid [OF ok_TSLA])
  have r: "rows no_rows_frame = []"
    by (simp add: no_rows_frame_def)
  show ?thesis
    using no_rows_gives_empty_bars [OF ok_TSLA h r] ok_TSLA h r
    by (simp add: upper_valid [OF ok_TSLA] supplied_or_def yf_request_period)
qed

text \<open>
  C10. In a result of \<open>get_historical_prices\<close> the field \<open>resolution\<close> is the period
  the caller gave, and 1y when the caller gave none, also when a start or an end date
  made the fetch ignore that period; the field \<open>period\<close> is then the text
  \<open>start=\<dots>, end=\<dots>\<close> built from the two dates (\<open>None\<close> for a missing one). With
  neither date, both fields are the period the caller gave, or 1y.
\<close>

theorem resolution_is_period_argument:
  assumes "get_historical_prices e symbol p i sd ed = (calls, Inr r)"
  shows "resolution r = (case p of None \<Rightarrow> ''1y'' | Some period \<Rightarrow> period) \<and>
         (sd \<noteq> None \<or> ed \<noteq> None \<longrightarrow>
            prices_period r =
              ''start='' @ (case sd of None \<Rightarrow> ''None'' | Some d \<Rightarrow> d) @
              '', end='' @ (case ed of None \<Rightarrow> ''None'' | Some d \<Rightarrow> d) \<and>
            calls = [TickerHistory symbol
                       [(''start'', sd), (''end'', ed),
                        (''interval'',
                         Some (case i of None \<Rightarrow> ''1d'' | Some interval \<Rightarrow> interval))]]) \<and>
         (sd = None \<and> ed = None \<longrightarrow>
            prices_period r = (case p of None \<Rightarrow> ''1y'' | Some period \<Rightarrow> period) \<and>
            calls = [TickerHistory symbol
                       [(''period'',
                         Some (case p of None \<Rightarrow> ''1y'' | Some period \<Rightarrow> period)),
                        (''interval'',
                         Some (case i of None \<Rightarrow> ''1d'' | Some interval \<Rightarrow> interval))]])"
proof -
  have ok: "pattern_ok symbol" using assms by (rule accepted_if_result)
  obtain hist where
    c: "calls = [TickerHistory (upper symbol)
                   (fst (yf_request (supplied_or ''1y'' p) (supplied_or ''1d'' i) sd ed))]"
    and r: "r = \<lparr> prices_symbol = upper symbol, resolution = supplied_or ''1y'' p,
                 prices_period =
                   snd (yf_request (supplied_or ''1y'' p) (supplied_or ''1d'' i) sd ed),
                 bars = (if df_empty hist then Map.empty
                         else fill_bars e (columns hist) (rows hist) Map.empty) \<rparr>"
    using get_historical_prices_result [OF assms refl] by blast
  show ?thesis
    unfolding c r upper_valid [OF ok]
    by (auto simp: yf_request_range yf_request_period supplied_or_def fmt_opt_def
        split: option.splits)
qed

lemma aapl_range_result:
  "get_historical_prices sample_env ''AAPL'' None None (Some ''2024-08-01'') None =
     ([TickerHistory ''AAPL''
         [(''start'', Some ''2024-08-01''), (''end'', None), (''interval'', Some ''1d'')]],
      Inr \<lparr> prices_symbol = ''AAPL'', resolution = ''1y'',
            prices_period = ''start=2024-08-01, end=None'',
            bars = fill_bars sample_env (columns full_frame) (rows full_frame) Map.empty \<rparr>)"
  by (simp add: get_historical_prices_accepts [OF ok_AAPL] supplied_or_def yf_request_def
      fmt_opt_def sample_env_def df_empty_def full_frame_def Let_def)

lemma aapl_5d_range_result:
  "get_historical_prices sample_env ''AAPL'' (Some ''5d'') (Some ''1wk'') (Some ''2024-08-01'')
     (Some ''2024-08-10'') =
     ([TickerHistory ''AAPL''
         [(''start'', Some ''2024-08-01''), (''end'', Some ''2024-08-10''),
          (''interval'', Some ''1wk'')]],
      Inr \<lparr> prices_symbol = ''AAPL'', resolution = ''5d'',
            prices_period = ''start=2024-08-01, end=2024-08-10'',
            bars = fill_bars sample_env (columns full_frame) (rows full_frame) Map.empty \<rparr>)"
  by (simp add: get_historical_prices_accepts [OF ok_AAPL] supplied_or_def yf_request_def
      fmt_opt_def sample_env_def df_empty_def full_frame_def Let_def)

lemma aapl_5d_result:
  "get_historical_prices sample_env ''AAPL'' (Some ''5d'') None None None =
     ([TickerHistory ''AAPL'' [(''period'', Some ''5d''), (''interval'', Some ''1d'')]],
      Inr \<lparr> prices_symbol = ''AAPL'', resolution = ''5d'', prices_period = ''5d'',
            bars = fill_bars sample_env (columns full_frame) (rows full_frame) Map.empty \<rparr>)"
  by (simp add: get_historical_prices_accepts [OF ok_AAPL] supplied_or_def yf_request_def
      fmt_opt_def sample_env_def df_empty_def full_frame_def Let_def)

theorem resolution_is_period_argument_witness:
  "resolution (projr (snd
     (get_historical_prices sample_env ''AAPL'' (Some ''5d'') (Some ''1wk'')
        (Some ''2024-08-01'') (Some ''2024-08-10'')))) = ''5d'' \<and>
   prices_period (projr (snd
     (get_historical_prices sample_env ''AAPL'' (Some ''5d'') (Some ''1wk'')
        (Some ''2024-08-01'') (Some ''2024-08-10'')))) = ''start=2024-08-01, end=2024-08-10'' \<and>
   fst (get_historical_prices sample_env ''AAPL'' (Some ''5d'') (Some ''1wk'')
          (Some ''2024-08-01'') (Some ''2024-08-10'')) =
     [TickerHistory ''AAPL''
        [(''start'', Some ''2024-08-01''), (''end'', Some ''2024-08-10''),
         (''interval'', Some ''1wk'')]] \<and>
   resolution (projr (snd
     (get_historical_prices sample_env ''AAPL'' None None (Some ''2024-08-01'') None))) =
     ''1y'' \<and>
   prices_period (projr (snd
     (get_historical_prices sample_env ''AAPL'' None None (Some ''2024-08-01'') None))) =
     ''start=2024-08-01, end=None'' \<and>
   resolution (projr (snd
     (get_historical_prices sample_env ''AAPL'' (Some ''5d'') None None None))) = ''5d'' \<and>
   prices_period (projr (snd
     (get_historical_prices sample_env ''AAPL'' (Some ''5d'') None None None))) = ''5d''"
  using resolution_is_period_argument [OF aapl_5d_range_result]
    resolution_is_period_argument [OF aapl_range_result]
    resolution_is_period_argument [OF aapl_5d_result]
    aapl_5d_range_result aapl_range_result aapl_5d_result
  by simp

section \<open>\<open>get_factsheet\<close> and the symbol\<close>

text \<open>
  C9. \<open>get_factsheet\<close> fetches one fixed URL whatever the symbol. For two valid symbols
  and backends that answer that URL alike, the two calls agree on failure or, on success,
  on the blob and the media type; the symbol shows only in the URI
  \<open>ui://data/factsheets/{symbol}.pdf\<close>.
\<close>

theorem factsheet_ignores_symbol:
  assumes "pattern_ok s1" and "pattern_ok s2"
    and "http_get e1 pdf_url = http_get e2 pdf_url"
  shows "fst (get_factsheet e1 s1) = [HttpGet pdf_url] \<and>
         fst (get_factsheet e2 s2) = [HttpGet pdf_url] \<and>
         map_sum id blob (snd (get_factsheet e1 s1)) =
           map_sum id blob (snd (get_factsheet e2 s2)) \<and>
         map_sum id blob (snd (get_factsheet e1 s1)) = http_get e1 pdf_url \<and>
         map_sum id mimeType (snd (get_factsheet e1 s1)) =
           map_sum id mimeType (snd (get_factsheet e2 s2)) \<and>
         map_sum id uri (snd (get_factsheet e1 s1)) =
           map_sum id (\<lambda>content. ''ui://data/factsheets/'' @ s1 @ ''.pdf'')
             (http_get e1 pdf_url)"
  using assms
  by (simp add: get_factsheet_accepts split: sum.splits)

theorem factsheet_ignores_symbol_witness:
  "pattern_ok ''AAPL'' \<and> pattern_ok ''MSFT'' \<and>
   map_sum id blob (snd (get_factsheet sample_env ''AAPL'')) = Inr ''%PDF-1.4'' \<and>
   map_sum id blob (snd (get_factsheet sample_env ''MSFT'')) = Inr ''%PDF-1.4'' \<and>
   map_sum id uri (snd (get_factsheet sample_env ''AAPL'')) =
     Inr ''ui://data/factsheets/AAPL.pdf'' \<and>
   map_sum id uri (snd (get_factsheet sample_env ''MSFT'')) =
     Inr ''ui://data/factsheets/MSFT.pdf''"
proof -
  have same: "http_get sample_env pdf_url = http_get sample_env pdf_url" by simp
  show ?thesis
    using factsheet_ignores_symbol [OF ok_AAPL ok_MSFT same]
      factsheet_ignores_symbol [OF ok_MSFT ok_AAPL same] ok_AAPL ok_MSFT
    by (simp add: sample_env_def)
qed

section \<open>The bars built from the rows\<close>

lemma fill_bars_eq:
  "fill_bars e cols rs acc =
     acc ++ map_of (rev (map (\<lambda>(idx, cells). (date_key e idx, make_bar cols cells)) rs))"
proof (induction rs arbitrary: acc)
  case Nil
  show ?case by simp
next
  case (Cons row rs)
  obtain idx cells where row: "row = (idx, cells)" by (cases row)
  show ?case
    unfolding row
    by (simp add: Cons.IH map_add_upd_left fun_eq_iff map_add_def split: option.splits)
qed

lemma fill_bars_from_row:
  assumes "fill_bars e cols rs Map.empty dk = Some b"
  shows "\<exists>idx cells. (idx, cells) \<in> set rs \<and> date_key e idx = dk \<and> b = make_bar cols cells"
proof -
  from assms
  have "(dk, b) \<in> set (rev (map (\<lambda>(idx, cells). (date_key e idx, make_bar cols cells)) rs))"
    by (simp add: fill_bars_eq map_of_SomeD del: set_rev)
  then show ?thesis by auto
qed

lemma fill_bars_covers:
  assumes "(idx, cells) \<in> set rs"
  shows "fill_bars e cols rs Map.empty (date_key e idx) \<noteq> None"
proof -
  have "date_key e idx
          \<in> fst ` set (rev (map (\<lambda>(idx, cells). (date_key e idx, make_bar cols cells)) rs))"
    using assms by force
  then show ?thesis
    by (simp only: fill_bars_eq empty_map_add map_of_eq_None_iff) simp
qed

text \<open>
  C6. Every bar in a result of \<open>get_historical_prices\<close> is built from a row of the
  backend's frame, under the date key of that row, and every row of a frame that has
  columns gets a bar. The bar's \<open>adj_close\<close> is the row's cell in the column
  \<open>Adj Close\<close> when the frame has a column of that label; otherwise it is \<open>None\<close>,
  whatever the row's \<open>Close\<close> is.
\<close>

theorem adj_close_only_from_its_column:
  assumes "get_historical_prices e symbol p i sd ed = (calls, Inr r)"
    and "yf_history e (upper symbol)
           (fst (yf_request (supplied_or ''1y'' p) (supplied_or ''1d'' i) sd ed)) = Inr hist"
  shows "(\<forall>dk b. bars r dk = Some b \<longrightarrow>
            (\<exists>idx cells. (idx, cells) \<in> set (rows hist) \<and> date_key e idx = dk \<and>
               b = make_bar (columns hist) cells \<and>
               adj_close b =
                 (if ''Adj Close'' \<in> set (columns hist)
                  then map_of (zip (columns hist) cells) ''Adj Close'' else None))) \<and>
         (''Adj Close'' \<notin> set (columns hist) \<longrightarrow>
            (\<forall>dk b. bars r dk = Some b \<longrightarrow> adj_close b = None)) \<and>
         (columns hist \<noteq> [] \<longrightarrow>
            (\<forall>(idx, cells) \<in> set (rows hist). bars r (date_key e idx) \<noteq> None))"
proof -
  obtain hist' where
    h': "yf_history e (upper symbol)
           (fst (yf_request (supplied_or ''1y'' p) (supplied_or ''1d'' i) sd ed)) = Inr hist'"
    and r: "r = \<lparr> prices_symbol = upper symbol, resolution = supplied_or ''1y'' p,
                 prices_period =
                   snd (yf_request (supplied_or ''1y'' p) (supplied_or ''1d'' i) sd ed),
                 bars = (if df_empty hist' then Map.empty
                         else fill_bars e (columns hist') (rows hist') Map.empty) \<rparr>"
    using get_historical_prices_result [OF assms(1) refl] by blast
  from h' assms(2) have same: "hist' = hist" by simp
  have b: "bars r = (if df_empty hist then Map.empty
                     else fill_bars e (columns hist) (rows hist) Map.empty)"
    unfolding r same by simp
  have from_row: "\<exists>idx cells. (idx, cells) \<in> set (rows hist) \<and> date_key e idx = dk \<and>
                    bar = make_bar (columns hist) cells"
    if "bars r dk = Some bar" for dk bar
    using that unfolding b by (auto split: if_splits dest: fill_bars_from_row)
  have adj: "adj_close (make_bar (columns hist) cells) =
               (if ''Adj Close'' \<in> set (columns hist)
                then map_of (zip (columns hist) cells) ''Adj Close'' else None)" for cells
    by (simp add: make_bar_def row_get_def)
  have covers: "bars r (date_key e idx) \<noteq> None"
    if "columns hist \<noteq> []" and "(idx, cells) \<in> set (rows hist)" for idx cells
  proof -
    from that have "\<not> df_empty hist" by (auto simp: df_empty_def)
    then show ?thesis unfolding b using fill_bars_covers [OF that(2)] by simp
  qed
  show ?thesis
  proof (intro conjI allI impI)
    fix dk bar assume "bars r dk = Some bar"
    from from_row [OF this] adj
    show "\<exists>idx cells. (idx, cells) \<in> set (rows hist) \<and> date_key e idx = dk \<and>
            bar = make_bar (columns hist) cells \<and>
            adj_close bar =
              (if ''Adj Close'' \<in> set (columns hist)
               then map_of (zip (columns hist) cells) ''Adj Close'' else None)"
      by blast
  next
    fix dk bar assume "''Adj Close'' \<notin> set (columns hist)" and "bars r dk = Some bar"
    with from_row adj show "adj_close bar = None" by fastforce
  next
    assume "columns hist \<noteq> []"
    with covers show "\<forall>(idx, cells) \<in> set (rows hist). bars r (date_key e idx) \<noteq> None"
      by blast
  qed
qed

lemma msft_result:
  "get_historical_prices sample_env ''MSFT'' None None None None =
     ([TickerHistory ''MSFT'' [(''period'', Some ''1y''), (''interval'', Some ''1d'')]],
      Inr \<lparr> prices_symbol = ''MSFT'', resolution = ''1y'', prices_period = ''1y'',
            bars = [(2024, 8, 9) \<mapsto>
                      \<lparr> bar_open = None, bar_high = Some (PyFloat 420),
                        bar_low = Some (PyFloat 410), bar_close = Some (PyFloat 415),
                        adj_close = None, bar_volume = None \<rparr>] \<rparr>)"
  by (simp add: get_historical_prices_accepts [OF ok_MSFT] supplied_or_def yf_request_def
      sample_env_def df_empty_def partial_frame_def stamp_def date_key_def make_bar_def
      row_get_def Let_def)

lemma msft_history:
  "yf_history sample_env (upper ''MSFT'')
     (fst (yf_request (supplied_or ''1y'' None) (supplied_or ''1d'' None) None None)) =
     Inr partial_frame"
  by (simp add: sample_env_def upper_valid [OF ok_MSFT])

lemma aapl_result:
  "get_historical_prices sample_env ''AAPL'' None None None None =
     ([TickerHistory ''AAPL'' [(''period'', Some ''1y''), (''interval'', Some ''1d'')]],
      Inr \<lparr> prices_symbol = ''AAPL'', resolution = ''1y'', prices_period = ''1y'',
            bars = [(2024, 8, 8) \<mapsto>
                      \<lparr> bar_open = Some (PyFloat 180), bar_high = Some (PyFloat 182),
                        bar_low = Some (PyFloat 179), bar_close = Some (PyFloat 181),
                        adj_close = Some (PyFloat (1809 / 10)), bar_volume = Some (PyInt 500) \<rparr>,
                    (2024, 8, 9) \<mapsto>
                      \<lparr> bar_open = Some (PyFloat (18012 / 100)),
                        bar_high = Some (PyFloat (18245 / 100)),
                        bar_low = Some (PyFloat (1789 / 10)),
                        bar_close = Some (PyFloat (18125 / 100)),
                        adj_close = Some (PyFloat (1811 / 10)),
                        bar_volume = Some (PyInt 51234567) \<rparr>] \<rparr>)"
  by (simp add: get_historical_prices_accepts [OF ok_AAPL] supplied_or_def yf_request_def
      sample_env_def df_empty_def full_frame_def stamp_def date_key_def make_bar_def
      row_get_def Let_def)

lemma aapl_history:
  "yf_history sample_env (upper ''AAPL'')
     (fst (yf_request (supplied_or ''1y'' None) (supplied_or ''1d'' None) None None)) =
     Inr full_frame"
  by (simp add: sample_env_def upper_valid [OF ok_AAPL])

theorem adj_close_only_from_its_column_witness:
  "''Adj Close'' \<notin> set (columns partial_frame) \<and>
   map_option bar_close
     (bars (projr (snd (get_historical_prices sample_env ''MSFT'' None None None None)))
        (2024, 8, 9)) = Some (Some (PyFloat 415)) \<and>
   map_option adj_close
     (bars (projr (snd (get_historical_prices sample_env ''MSFT'' None None None None)))
        (2024, 8, 9)) = Some None \<and>
   ''Adj Close'' \<in> set (columns full_frame) \<and>
   map_option adj_close
     (bars (projr (snd (get_historical_prices sample_env ''AAPL'' None None None None)))
        (2024, 8, 9)) = Some (Some (PyFloat (1811 / 10)))"
  using adj_close_only_from_its_column [OF msft_result msft_history]
    adj_close_only_from_its_column [OF aapl_result aapl_history]
    msft_result aapl_result
  by (simp add: partial_frame_def full_frame_def)

section \<open>The discovery endpoint\<close>

lemma strip_split:
  "s = takeWhile isspace s @ strip s @ rev (takeWhile isspace (rev (dropWhile isspace s)))"
proof -
  let ?t = "dropWhile isspace s"
  have "strip s @ rev (takeWhile isspace (rev ?t)) =
        rev (takeWhile isspace (rev ?t) @ dropWhile isspace (rev ?t))"
    by (simp only: strip_def rev_append)
  also have "\<dots> = rev (rev ?t)" by (simp only: takeWhile_dropWhile_id)
  also have "\<dots> = ?t" by (simp only: rev_rev_ident)
  finally have "?t = strip s @ rev (takeWhile isspace (rev ?t))" by (rule sym)
  moreover have "s = takeWhile isspace s @ ?t" by simp
  ultimately show ?thesis by simp
qed

lemma strip_surroundings:
  "\<exists>pre post. s = pre @ strip s @ post \<and> list_all isspace pre \<and> list_all isspace post"
proof (intro exI conjI)
  show "s = takeWhile isspace s @ strip s @ rev (takeWhile isspace (rev (dropWhile isspace s)))"
    by (rule strip_split)
  show "list_all isspace (takeWhile isspace s)"
    by (auto simp: list_all_iff dest: set_takeWhileD)
  show "list_all isspace (rev (takeWhile isspace (rev (dropWhile isspace s))))"
    by (auto simp: list_all_iff dest: set_takeWhileD)
qed

lemma last_dropWhile: "dropWhile P xs \<noteq> [] \<Longrightarrow> last (dropWhile P xs) = last xs"
  by (induction xs) (auto split: if_splits)

lemma strip_ends:
  assumes "strip s \<noteq> []"
  shows "\<not> isspace (hd (strip s)) \<and> \<not> isspace (last (strip s))"
proof -
  let ?t = "dropWhile isspace s"
  let ?u = "dropWhile isspace (rev ?t)"
  from assms have u: "?u \<noteq> []" by (simp add: strip_def)
  then have t: "?t \<noteq> []" by (cases "?t = []") simp_all
  have "last (strip s) = hd ?u" using u by (simp add: strip_def last_rev)
  moreover have "\<not> isspace (hd ?u)" using u by (rule hd_dropWhile)
  moreover have "hd (strip s) = last ?u" using u by (simp add: strip_def hd_rev)
  moreover have "last ?u = last (rev ?t)" using u by (rule last_dropWhile)
  moreover have "last (rev ?t) = hd ?t" using t by (simp add: last_rev)
  moreover have "\<not> isspace (hd ?t)" using t by (rule hd_dropWhile)
  ultimately show ?thesis by simp
qed

text \<open>
  Where \<open>exists()\<close> returns, the handler returns a response whose first member is
  \<open>name\<close> with the value \<open>wingman\<close>. When the file is absent, cannot be read, or
  has only whitespace, that is the whole response. Otherwise the response has a second
  member \<open>instructions\<close>: the text that \<open>read()\<close> returns, without its leading and
  trailing whitespace; it starts and ends with a character that is not whitespace.
\<close>

lemma wingman_endpoint_handled:
  "wingman_endpoint Absent = Inr [(''name'', ''wingman'')] \<and>
   wingman_endpoint Unreadable = Inr [(''name'', ''wingman'')] \<and>
   (strip (universal_newlines cs) = [] \<longrightarrow>
      wingman_endpoint (Readable cs) = Inr [(''name'', ''wingman'')]) \<and>
   (strip (universal_newlines cs) \<noteq> [] \<longrightarrow>
      wingman_endpoint (Readable cs) =
        Inr [(''name'', ''wingman''), (''instructions'', strip (universal_newlines cs))] \<and>
      \<not> isspace (hd (strip (universal_newlines cs))) \<and>
      \<not> isspace (last (strip (universal_newlines cs)))) \<and>
   (\<exists>pre post. universal_newlines cs = pre @ strip (universal_newlines cs) @ post \<and>
      list_all isspace pre \<and> list_all isspace post)"
proof (intro conjI impI)
  show "\<exists>pre post. universal_newlines cs = pre @ strip (universal_newlines cs) @ post \<and>
      list_all isspace pre \<and> list_all isspace post"
    by (rule strip_surroundings)
  show "\<not> isspace (hd (strip (universal_newlines cs)))"
    if "strip (universal_newlines cs) \<noteq> []"
    using strip_ends [OF that] by simp
  show "\<not> isspace (last (strip (universal_newlines cs)))"
    if "strip (universal_newlines cs) \<noteq> []"
    using strip_ends [OF that] by simp
qed (simp_all add: wingman_endpoint_def)

lemma wingman_endpoint_crlf:
  "wingman_endpoint
     (Readable ([CHR '' ''] @ ''Use the tools.'' @ [CHR 0x0D, CHR 0x0A] @ ''Be brief.'' @
                [CHR 0x0D, CHR 0x0A])) =
     Inr [(''name'', ''wingman''),
          (''instructions'', ''Use the tools.'' @ [CHR 0x0A] @ ''Be brief.'')]"
  by (simp add: wingman_endpoint_def strip_def isspace_def)

text \<open>
  C7. The claim holds where \<open>exists()\<close> returns, and fails where it raises: the test
  stands outside the \<open>try\<close> block, so its error leaves the handler and no JSON document
  is returned, while an error of opening or reading the file, inside the block, is
  swallowed and the response is the document without instructions.
\<close>

theorem wingman_endpoint_stat_failure:
  "wingman_endpoint StatFails = Inl UnhandledOSError \<and>
   wingman_endpoint Unreadable = Inr [(''name'', ''wingman'')] \<and>
   wingman_endpoint Absent = Inr [(''name'', ''wingman'')]"
  by (simp add: wingman_endpoint_def)

section \<open>The chart of a history without rows\<close>

lemma collect_chart_data_no_rows: "rows hist = [] \<Longrightarrow> collect_chart_data hist = [dummy_point]"
  by (simp add: collect_chart_data_def df_empty_def)

lemma collect_chart_data_rows:
  "\<not> df_empty hist \<Longrightarrow>
   collect_chart_data hist = map (\<lambda>(idx, cells). make_point (columns hist) idx cells) (rows hist)"
  by (simp add: collect_chart_data_def df_empty_def)

lemma decimal_digit: "n < 10 \<Longrightarrow> decimal n = [char_of (48 + n)]"
  by (simp add: decimal.simps)

lemma fmt_latest_dummy: "fmt_fixed False 2 (PyInt 100) = ''100.00''"
  by (simp add: fmt_fixed_def round_half_even_def Let_def decimal.simps [of 100]
      decimal.simps [of 10] decimal_digit char_of_def bit_0)

lemma fmt_change_dummy: "fmt_fixed True 2 (PyInt 0) = ''+0.00''"
  by (simp add: fmt_fixed_def round_half_even_def Let_def decimal_digit char_of_def bit_0)

lemma fmt_pct_dummy: "fmt_fixed True (Suc 0) (PyFloat 0) = ''+0.0''"
  by (simp add: fmt_fixed_def round_half_even_def Let_def decimal_digit char_of_def bit_0)

lemma decimal_one: "decimal (Suc 0) = ''1''"
  by (simp add: decimal_digit char_of_def bit_0)

lemma dummy_document:
  "build_document s chart_type actual_period [dummy_point] =
     \<lparr> doc_title = upper s @ '' Chart'', doc_period = actual_period,
       doc_current_price = ''$100.00'', doc_change_class = ''positive'',
       doc_change = ''$+0.00 (+0.0%)'', doc_data_points = ''1'',
       doc_raw_data = [dummy_point], doc_chart_script = select_chart_script chart_type \<rparr>"
  by (simp add: build_document_def dummy_point_def Let_def fmt_latest_dummy fmt_change_dummy
      fmt_pct_dummy decimal_one)

lemma tsla_chart_history:
  "yf_history sample_env (upper ''TSLA'')
     (fst (yf_request (supplied_or ''1mo'' None) (supplied_or ''1d'' None) None None)) =
     Inr no_rows_frame"
  by (simp add: sample_env_def upper_valid [OF ok_TSLA])

lemma no_rows_frame_rows: "rows no_rows_frame = []"
  by (simp add: no_rows_frame_def)

lemma tsla_chart:
  "snd (render_stock_chart sample_env ''TSLA'' None None None None None) =
     Inr \<lparr> uri = ''ui://data/chart/TSLA'', mimeType = ''text/html'',
           blob = \<lparr> doc_title = ''TSLA Chart'', doc_period = ''1mo'',
                    doc_current_price = ''$100.00'', doc_change_class = ''positive'',
                    doc_change = ''$+0.00 (+0.0%)'', doc_data_points = ''1'',
                    doc_raw_data = [dummy_point],
                    doc_chart_script = CandlestickChart \<rparr> \<rparr>"
  using tsla_chart_history
  by (simp add: render_stock_chart_accepts [OF ok_TSLA] Let_def upper_valid [OF ok_TSLA]
      collect_chart_data_no_rows [OF no_rows_frame_rows] dummy_document
      yf_request_period supplied_or_def select_chart_script_def lower_def char_lower_def
      is_upper_def)

text \<open>
  C3, the claim as written fails on the change statistic: for a history without rows the
  document shows \<open>$+0.00 (+0.0%)\<close>, with the sign that the format \<open>+.2f\<close> prints,
  not \<open>0.00 (+0.0%)\<close>.
\<close>

theorem no_rows_chart_counterexample:
  "rows no_rows_frame = [] \<and>
   yf_history sample_env (upper ''TSLA'')
     (fst (yf_request (supplied_or ''1mo'' None) (supplied_or ''1d'' None) None None)) =
     Inr no_rows_frame \<and>
   map_sum id (doc_change \<circ> blob)
     (snd (render_stock_chart sample_env ''TSLA'' None None None None None)) =
     Inr ''$+0.00 (+0.0%)'' \<and>
   map_sum id (doc_change \<circ> blob)
     (snd (render_stock_chart sample_env ''TSLA'' None None None None None)) \<noteq>
     Inr ''0.00 (+0.0%)''"
  using tsla_chart_history no_rows_frame_rows by (simp add: tsla_chart)

text \<open>
  C3, as amended. When the backend answers a \<open>render_stock_chart\<close> call with a frame
  of zero rows, the data of the document is the single point dated 2024-01-01 with open,
  high, low and close 100 and volume 0, the number of data points shown is 1, the current
  price shown is \<open>$100.00\<close>, and the change statistic shown is \<open>$+0.00 (+0.0%)\<close>.
\<close>

theorem no_rows_chart:
  assumes "pattern_ok symbol"
    and "yf_history e (upper symbol)
           (fst (yf_request (supplied_or ''1mo'' p) (supplied_or ''1d'' i) sd ed)) = Inr hist"
    and "rows hist = []"
  shows "\<exists>r. snd (render_stock_chart e symbol c p i sd ed) = Inr r \<and>
           doc_raw_data (blob r) =
             [\<lparr> pt_date = ''2024-01-01'', pt_open = PyInt 100, pt_high = PyInt 100,
                pt_low = PyInt 100, pt_close = PyInt 100, pt_volume = PyInt 0 \<rparr>] \<and>
           doc_data_points (blob r) = ''1'' \<and>
           doc_current_price (blob r) = ''$100.00'' \<and>
           doc_change_class (blob r) = ''positive'' \<and>
           doc_change (blob r) = ''$+0.00 (+0.0%)''"
  using assms
  by (simp add: render_stock_chart_accepts Let_def upper_valid collect_chart_data_no_rows
      dummy_document) (simp add: dummy_point_def)

theorem no_rows_chart_witness:
  "pattern_ok ''TSLA'' \<and> rows no_rows_frame = [] \<and>
   yf_history sample_env (upper ''TSLA'')
     (fst (yf_request (supplied_or ''1mo'' None) (supplied_or ''1d'' None) None None)) =
     Inr no_rows_frame \<and>
   (\<exists>r. snd (render_stock_chart sample_env ''TSLA'' None None None None None) = Inr r \<and>
        doc_raw_data (blob r) =
          [\<lparr> pt_date = ''2024-01-01'', pt_open = PyInt 100, pt_high = PyInt 100,
             pt_low = PyInt 100, pt_close = PyInt 100, pt_volume = PyInt 0 \<rparr>] \<and>
        doc_data_points (blob r) = ''1'' \<and>
        doc_current_price (blob r) = ''$100.00'' \<and>
        doc_change_class (blob r) = ''positive'' \<and>
        doc_change (blob r) = ''$+0.00 (+0.0%)'')"
  using no_rows_chart [OF ok_TSLA tsla_chart_history no_rows_frame_rows, where c = None]
    ok_TSLA tsla_chart_history no_rows_frame_rows
  by simp

section \<open>Fields the backend does not return\<close>

lemma dict_get_absent: "d k = None \<Longrightarrow> dict_get d k = None"
  by (simp add: dict_get_def)

lemma row_get_absent: "k \<notin> set cols \<Longrightarrow> row_get cols cells k = None"
  by (auto simp: row_get_def map_of_eq_None_iff dest: set_zip_leftD)

lemma get_stock_info_fields:
  assumes "get_stock_info e symbol = (calls, Inr r)"
    and "yf_info e (upper symbol) = Inr info"
  shows "\<forall>(k, field) \<in> set info_fields. field r = dict_get info k"
proof -
  have ok: "pattern_ok symbol"
  proof (rule ccontr)
    assume "\<not> pattern_ok symbol"
    then have "get_stock_info e symbol = ([], Inl ValidationError)"
      by (rule get_stock_info_rejects)
    with assms(1) show False by simp
  qed
  from assms(2) ok have "yf_info e symbol = Inr info" by (simp add: upper_valid)
  with assms(1) ok show ?thesis
    by (auto simp: get_stock_info_def validate_symbol_ok upper_valid info_fields_def)
qed

lemma make_bar_fields:
  "\<forall>(k, field) \<in> set bar_fields. field (make_bar cols cells) = row_get cols cells k"
  by (simp add: bar_fields_def make_bar_def row_get_absent)

lemma make_point_defaults:
  "(\<forall>(k, field) \<in> set point_price_fields.
      k \<notin> set cols \<longrightarrow> field (make_point cols idx cells) = PyFloat 0) \<and>
   (''Volume'' \<notin> set cols \<longrightarrow> pt_volume (make_point cols idx cells) = PyInt 0)"
  by (simp add: point_price_fields_def make_point_def row_get_or_def row_get_absent)

lemma render_stock_chart_result:
  assumes "pattern_ok symbol"
    and "yf_history e (upper symbol)
           (fst (yf_request (supplied_or ''1mo'' p) (supplied_or ''1d'' i) sd ed)) = Inr hist"
  shows "render_stock_chart e symbol c p i sd ed =
           ([TickerHistory symbol
               (fst (yf_request (supplied_or ''1mo'' p) (supplied_or ''1d'' i) sd ed))],
            Inr \<lparr> uri = ''ui://data/chart/'' @ symbol, mimeType = ''text/html'',
                  blob = build_document symbol (supplied_or ''candlestick'' c)
                           (snd (yf_request (supplied_or ''1mo'' p) (supplied_or ''1d'' i) sd ed))
                           (collect_chart_data hist) \<rparr>)"
  using assms by (simp add: render_stock_chart_accepts Let_def upper_valid)

lemma doc_raw_data_build: "doc_raw_data (build_document s ct ap cd) = cd"
  by (simp add: build_document_def Let_def)

lemma chart_accepted_if_result:
  assumes "render_stock_chart e symbol c p i sd ed = (calls, Inr r)"
  shows "pattern_ok symbol"
proof (rule ccontr)
  assume "\<not> pattern_ok symbol"
  then have "render_stock_chart e symbol c p i sd ed = ([], Inl ValidationError)"
    by (rule render_stock_chart_rejects)
  with assms show False by simp
qed

lemma msft_chart_history:
  "yf_history sample_env (upper ''MSFT'')
     (fst (yf_request (supplied_or ''1mo'' None) (supplied_or ''1d'' None) None None)) =
     Inr partial_frame"
  by (simp add: sample_env_def upper_valid [OF ok_MSFT])

lemma msft_points:
  "collect_chart_data partial_frame =
     [\<lparr> pt_date = ''2024-08-09'', pt_open = PyFloat 0, pt_high = PyFloat 420,
        pt_low = PyFloat 410, pt_close = PyFloat 415, pt_volume = PyInt 0 \<rparr>]"
  by (simp add: collect_chart_data_def df_empty_def partial_frame_def make_point_def
      row_get_or_def row_get_def date_str_def stamp_def)

lemma partial_frame_columns:
  "''Open'' \<notin> set (columns partial_frame) \<and> ''Volume'' \<notin> set (columns partial_frame) \<and>
   \<not> df_empty partial_frame"
  by (simp add: partial_frame_def df_empty_def)

text \<open>
  C2, the claim as written fails for \<open>render_stock_chart\<close>: the backend's frame for
  MSFT has no Open and no Volume column, and the chart's data point has 0.0 for open and
  0 for volume.
\<close>

theorem chart_default_zero_counterexample:
  "''Open'' \<notin> set (columns partial_frame) \<and> ''Volume'' \<notin> set (columns partial_frame) \<and>
   yf_history sample_env (upper ''MSFT'')
     (fst (yf_request (supplied_or ''1mo'' None) (supplied_or ''1d'' None) None None)) =
     Inr partial_frame \<and>
   map_sum id (map pt_open \<circ> doc_raw_data \<circ> blob)
     (snd (render_stock_chart sample_env ''MSFT'' None None None None None)) =
     Inr [PyFloat 0] \<and>
   map_sum id (map pt_volume \<circ> doc_raw_data \<circ> blob)
     (snd (render_stock_chart sample_env ''MSFT'' None None None None None)) =
     Inr [PyInt 0]"
  using partial_frame_columns msft_chart_history
  by (simp add: render_stock_chart_result [OF ok_MSFT msft_chart_history] doc_raw_data_build
      msft_points)

text \<open>
  C2, as amended. In a result of \<open>get_stock_info\<close> every field whose key is absent
  from the backend's info is \<open>None\<close>, and in a result of \<open>get_historical_prices\<close>
  every field of every bar whose column is absent from the backend's frame is \<open>None\<close>.
  \<open>render_stock_chart\<close> does otherwise, by its defaults: on a frame with data, every
  data point has 0.0 for an absent Open, High, Low or Close column and 0 for an absent
  Volume column.
\<close>

theorem absent_fields:
  "(get_stock_info e symbol = (icalls, Inr stock) \<longrightarrow>
    yf_info e (upper symbol) = Inr info \<longrightarrow>
      (\<forall>(k, field) \<in> set info_fields. info k = None \<longrightarrow> field stock = None)) \<and>
   (get_historical_prices e symbol p i sd ed = (hcalls, Inr prices) \<longrightarrow>
    yf_history e (upper symbol)
      (fst (yf_request (supplied_or ''1y'' p) (supplied_or ''1d'' i) sd ed)) = Inr hist \<longrightarrow>
      (\<forall>dk b. bars prices dk = Some b \<longrightarrow>
         (\<forall>(k, field) \<in> set bar_fields. k \<notin> set (columns hist) \<longrightarrow> field b = None))) \<and>
   (render_stock_chart e symbol c p i sd ed = (ccalls, Inr chart) \<longrightarrow>
    yf_history e (upper symbol)
      (fst (yf_request (supplied_or ''1mo'' p) (supplied_or ''1d'' i) sd ed)) = Inr chist \<longrightarrow>
    \<not> df_empty chist \<longrightarrow>
      length (doc_raw_data (blob chart)) = length (rows chist) \<and>
      (\<forall>pt \<in> set (doc_raw_data (blob chart)).
         (\<forall>(k, field) \<in> set point_price_fields.
            k \<notin> set (columns chist) \<longrightarrow> field pt = PyFloat 0) \<and>
         (''Volume'' \<notin> set (columns chist) \<longrightarrow> pt_volume pt = PyInt 0)))"
proof (intro conjI impI)
  assume "get_stock_info e symbol = (icalls, Inr stock)" and "yf_info e (upper symbol) = Inr info"
  then have "\<forall>(k, field) \<in> set info_fields. field stock = dict_get info k"
    by (rule get_stock_info_fields)
  then show "\<forall>(k, field) \<in> set info_fields. info k = None \<longrightarrow> field stock = None"
    by (auto simp: dict_get_absent)
next
  assume res: "get_historical_prices e symbol p i sd ed = (hcalls, Inr prices)"
    and h: "yf_history e (upper symbol)
      (fst (yf_request (supplied_or ''1y'' p) (supplied_or ''1d'' i) sd ed)) = Inr hist"
  obtain hist' where
    h': "yf_history e (upper symbol)
           (fst (yf_request (supplied_or ''1y'' p) (supplied_or ''1d'' i) sd ed)) = Inr hist'"
    and r: "prices = \<lparr> prices_symbol = upper symbol, resolution = supplied_or ''1y'' p,
                 prices_period =
                   snd (yf_request (supplied_or ''1y'' p) (supplied_or ''1d'' i) sd ed),
                 bars = (if df_empty hist' then Map.empty
                         else fill_bars e (columns hist') (rows hist') Map.empty) \<rparr>"
    using get_historical_prices_result [OF res refl] by blast
  from h h' have same: "hist' = hist" by simp
  show "\<forall>dk b. bars prices dk = Some b \<longrightarrow>
         (\<forall>(k, field) \<in> set bar_fields. k \<notin> set (columns hist) \<longrightarrow> field b = None)"
  proof (intro allI impI)
    fix dk b assume "bars prices dk = Some b"
    then obtain idx cells where "b = make_bar (columns hist) cells"
      unfolding r same by (auto split: if_splits dest: fill_bars_from_row)
    then show "\<forall>(k, field) \<in> set bar_fields. k \<notin> set (columns hist) \<longrightarrow> field b = None"
      using make_bar_fields [of "columns hist" cells] by (auto simp: row_get_absent)
  qed
next
  assume res: "render_stock_chart e symbol c p i sd ed = (ccalls, Inr chart)"
    and h: "yf_history e (upper symbol)
      (fst (yf_request (supplied_or ''1mo'' p) (supplied_or ''1d'' i) sd ed)) = Inr chist"
    and data: "\<not> df_empty chist"
  have ok: "pattern_ok symbol" using res by (rule chart_accepted_if_result)
  have pts: "doc_raw_data (blob chart) =
               map (\<lambda>(idx, cells). make_point (columns chist) idx cells) (rows chist)"
    using res unfolding render_stock_chart_result [OF ok h]
    by (auto simp: doc_raw_data_build collect_chart_data_rows [OF data])
  show "length (doc_raw_data (blob chart)) = length (rows chist)"
    unfolding pts by simp
  show "\<forall>pt \<in> set (doc_raw_data (blob chart)).
         (\<forall>(k, field) \<in> set point_price_fields.
            k \<notin> set (columns chist) \<longrightarrow> field pt = PyFloat 0) \<and>
         (''Volume'' \<notin> set (columns chist) \<longrightarrow> pt_volume pt = PyInt 0)"
  proof (intro ballI)
    fix pt assume "pt \<in> set (doc_raw_data (blob chart))"
    then obtain idx cells where "pt = make_point (columns chist) idx cells"
      unfolding pts by auto
    then show "(\<forall>(k, field) \<in> set point_price_fields.
                  k \<notin> set (columns chist) \<longrightarrow> field pt = PyFloat 0) \<and>
               (''Volume'' \<notin> set (columns chist) \<longrightarrow> pt_volume pt = PyInt 0)"
      using make_point_defaults [of "columns chist" idx cells] by simp
  qed
qed

lemma aapl_info_result:
  "get_stock_info sample_env ''AAPL'' =
     ([TickerInfo ''AAPL''],
      Inr \<lparr> info_symbol = ''AAPL'', company_name = Some (SStr ''Apple Inc.''),
            current_price = Some (SNum (PyFloat (15025 / 100))), market_cap = None,
            pe_ratio = None, dividend_yield = None, fifty_two_week_high = None,
            fifty_two_week_low = None, sector = None, industry = None, info_volume = None,
            avg_volume = None, beta = None, book_value = None, eps = None \<rparr>)"
  by (simp add: get_stock_info_def validate_symbol_ok [OF ok_AAPL] upper_valid [OF ok_AAPL]
      sample_env_def sample_info_def dict_get_def)

lemma aapl_info:
  "yf_info sample_env (upper ''AAPL'') = Inr sample_info \<and> sample_info ''sector'' = None"
  by (simp add: sample_env_def upper_valid [OF ok_AAPL] sample_info_def)

theorem absent_fields_witness:
  "sample_info ''sector'' = None \<and>
   sector (projr (snd (get_stock_info sample_env ''AAPL''))) = None \<and>
   ''Open'' \<notin> set (columns partial_frame) \<and>
   map_option bar_open
     (bars (projr (snd (get_historical_prices sample_env ''MSFT'' None None None None)))
        (2024, 8, 9)) = Some None \<and>
   map pt_open (doc_raw_data (blob (projr (snd
     (render_stock_chart sample_env ''MSFT'' None None None None None))))) = [PyFloat 0] \<and>
   map pt_volume (doc_raw_data (blob (projr (snd
     (render_stock_chart sample_env ''MSFT'' None None None None None))))) = [PyInt 0]"
  using absent_fields [where e = sample_env and symbol = "''AAPL''"
      and icalls = "[TickerInfo ''AAPL'']"
      and stock = "projr (snd (get_stock_info sample_env ''AAPL''))" and info = sample_info]
    absent_fields [where e = sample_env and symbol = "''MSFT''" and p = None and i = None
      and sd = None and ed = None and c = None
      and hcalls = "fst (get_historical_prices sample_env ''MSFT'' None None None None)"
      and prices = "projr (snd (get_historical_prices sample_env ''MSFT'' None None None None))"
      and hist = partial_frame
      and ccalls = "fst (render_stock_chart sample_env ''MSFT'' None None None None None)"
      and chart = "projr (snd (render_stock_chart sample_env ''MSFT'' None None None None None))"
      and chist = partial_frame]
    aapl_info partial_frame_columns
  by (simp add: aapl_info_result msft_result
      render_stock_chart_result [OF ok_MSFT msft_chart_history] doc_raw_data_build msft_points)

end
